theory Spec2Isabelle
  imports Main
begin

section \<open>Python values shared by the demos\<close>

text \<open>
  Exceptions are values. The class decides which \<open>except\<close> clause catches one:
  \<open>except Exception\<close> catches every class below except \<open>NonException\<close> (the classes
  that derive from BaseException only, such as KeyboardInterrupt), and
  \<open>except pytz.exceptions.UnknownTimeZoneError\<close> catches that class alone.
  The string is what \<open>str(e)\<close> returns.
\<close>

datatype exc_class =
  ValueError | IndexError | AttributeError | TypeError | UnicodeEncodeError
| UnknownTimeZoneError | OtherException | NonException

datatype py_exception = PyExc exc_class string

fun exc_class_of :: "py_exception \<Rightarrow> exc_class" where
  "exc_class_of (PyExc c m) = c"

fun str_exc :: "py_exception \<Rightarrow> string" where
  "str_exc (PyExc c m) = m"

definition is_Exception :: "py_exception \<Rightarrow> bool" where
  "is_Exception e = (exc_class_of e \<noteq> NonException)"

definition nl :: char where
  "nl = CHR 0x0A"

text \<open>\<open>print(s, end=e)\<close> appends \<open>s\<close> and \<open>e\<close> to the standard output.\<close>

definition py_print :: "string \<Rightarrow> string \<Rightarrow> string \<Rightarrow> string" where
  "py_print s e out = out @ s @ e"

definition rule60 :: string where
  "rule60 = replicate 60 (CHR ''='')"

text \<open>The check mark and the cross of the progress messages, as UTF-8 bytes.\<close>

definition check_mark :: string where
  "check_mark = [CHR 0xE2, CHR 0x9C, CHR 0x93]"

definition cross_mark :: string where
  "cross_mark = [CHR 0xE2, CHR 0x9C, CHR 0x97]"

text \<open>
  Python truthiness of an optional string: \<open>None\<close> and \<open>""\<close> are falsy. The result is
  the string when it is truthy, so that \<open>if not x: raise\<close> is a case distinction.
\<close>

fun truthy :: "string option \<Rightarrow> string option" where
  "truthy None = None"
| "truthy (Some s) = (if s = [] then None else Some s)"

section \<open>The remote service boundary\<close>

text \<open>
  Each call on \<open>self.client\<close> is recorded in a log, and the service's answer to it is an
  argument of the modelled method: a value, or the exception the call raises. The constant
  \<open>instructions\<close> text of a request is left out of the log; every other argument is kept.
\<close>

datatype tool_config = FileSearch "string list" nat | CodeInterpreter

record responses_request =
  req_input :: string
  req_model :: string
  req_previous_response_id :: "string option"
  req_tools :: "tool_config list"
  req_stream :: bool

datatype remote_call =
  VectorStoresCreate string
| FilesCreate string
| VectorStoresFilesCreate string string
| VectorStoresDelete string
| ResponsesCreate responses_request

text \<open>
  A response object: \<open>response.id\<close> and \<open>response.output\<close>. A message item has a list
  \<open>.content\<close>, an item such as a reasoning item has \<open>.content\<close> set to \<open>None\<close>, and
  any other item (a tool call) has no such attribute. Only an output-text part has
  \<open>.text\<close>. The constructors without these attributes carry the class name that the
  AttributeError reports.
\<close>

datatype content_part = OutputText string | OtherPart string

datatype output_item = Message "content_part list" | NoneContent | OtherItem string

definition quote :: char where
  "quote = CHR 0x27"

text \<open>The message of \<open>AttributeError\<close> for a missing attribute of an object of a class.\<close>

definition no_attribute :: "string \<Rightarrow> string \<Rightarrow> string" where
  "no_attribute cls attr =
     quote # cls @ quote # '' object has no attribute '' @ quote # attr @ [quote]"

record api_response =
  resp_id :: string
  resp_output :: "output_item list"

text \<open>
  A streamed event: \<open>event.type\<close>, \<open>event.delta\<close>, \<open>event.response.id\<close>, and the type of
  \<open>event.item\<close> when the event has that attribute. Iterating a stream yields its events
  and then either stops or raises.
\<close>

record stream_event =
  ev_type :: string
  ev_delta :: string
  ev_response_id :: string
  ev_item_type :: "string option"

record event_stream =
  events :: "stream_event list"
  interruption :: "py_exception option"

text \<open>\<open>response.output[-1].content[0].text\<close>, with every way it can raise.\<close>

definition response_text :: "api_response \<Rightarrow> py_exception + string" where
  "response_text r =
     (if resp_output r = [] then Inl (PyExc IndexError ''list index out of range'')
      else case last (resp_output r) of
        OtherItem cls \<Rightarrow> Inl (PyExc AttributeError (no_attribute cls ''content''))
      | NoneContent \<Rightarrow>
          Inl (PyExc TypeError (quote # ''NoneType'' @ quote # '' object is not subscriptable''))
      | Message parts \<Rightarrow>
          (case parts of
             [] \<Rightarrow> Inl (PyExc IndexError ''list index out of range'')
           | OutputText t # _ \<Rightarrow> Inr t
           | OtherPart cls # _ \<Rightarrow> Inl (PyExc AttributeError (no_attribute cls ''text''))))"

text \<open>
  The text a response object carries as a whole: the output-text parts of its message
  items, in order. This is the text the stream of the same response delivers as deltas,
  and the \<open>fullText\<close> of the spec's synthetic event list.
\<close>

fun part_text :: "content_part \<Rightarrow> string" where
  "part_text (OutputText t) = t"
| "part_text (OtherPart cls) = []"

fun item_text :: "output_item \<Rightarrow> string" where
  "item_text (Message parts) = concat (map part_text parts)"
| "item_text NoneContent = []"
| "item_text (OtherItem cls) = []"

definition response_full_text :: "api_response \<Rightarrow> string" where
  "response_full_text r = concat (map item_text (resp_output r))"

text \<open>The state every demo object lives in: what was printed and which remote calls were issued.\<close>

record process_io =
  stdout :: string
  calls :: "remote_call list"

section \<open>Demo 1: PDFSearchAssistant\<close>

record history_entry =
  query :: string
  response :: string
  response_id :: "string option"

record pdf_search_assistant = process_io +
  vector_store_id :: "string option"
  conversation_history :: "history_entry list"

text \<open>\<open>__init__\<close>: no vector store, empty history.\<close>

definition init_assistant :: pdf_search_assistant where
  "init_assistant =
     \<lparr>stdout = [], calls = [], vector_store_id = None, conversation_history = []\<rparr>"

definition vector_store_error :: py_exception where
  "vector_store_error =
     PyExc ValueError ''Vector store not created. Call create_vector_store() first.''"

text \<open>
  The reference the next request is chained to:
  \<open>previous_response_id = None; if self.conversation_history: previous_response_id =
  self.conversation_history[-1]["response_id"]\<close>.
\<close>

definition previous_response_id :: "history_entry list \<Rightarrow> string option" where
  "previous_response_id h = (if h \<noteq> [] then response_id (last h) else None)"

definition file_search_request ::
  "string \<Rightarrow> string \<Rightarrow> string option \<Rightarrow> string \<Rightarrow> bool \<Rightarrow> responses_request" where
  "file_search_request q m prev vs s =
     \<lparr>req_input = q, req_model = m, req_previous_response_id = prev,
      req_tools = [FileSearch [vs] 5], req_stream = s\<rparr>"

definition search ::
  "pdf_search_assistant \<Rightarrow> string \<Rightarrow> string \<Rightarrow> py_exception + api_response
     \<Rightarrow> (py_exception + string) \<times> pdf_search_assistant" where
  "search self q m answer =
     (case truthy (vector_store_id self) of
        None \<Rightarrow> (Inl vector_store_error, self)
      | Some vs \<Rightarrow>
        (let prev = previous_response_id (conversation_history self);
            s1 = self\<lparr>stdout := py_print rule60 [nl]
                          (py_print (nl # ''Searching: '' @ q) [nl] (stdout self))\<rparr>;
            s2 = s1\<lparr>calls := calls s1 @
                          [ResponsesCreate
                             (file_search_request q m prev vs False)]\<rparr>
        in (case answer of
             Inl e \<Rightarrow> (Inl e, s2)
           | Inr r \<Rightarrow>
               (case response_text r of
                  Inl e \<Rightarrow> (Inl e, s2)
                | Inr txt \<Rightarrow>
                    (Inr txt,
                     s2\<lparr>conversation_history := conversation_history s2 @
                          [\<lparr>query = q, response = txt,
                            response_id = Some (resp_id r)\<rparr>]\<rparr>)))))"

text \<open>
  The loop of \<open>search_streaming\<close> over the events, with the accumulators \<open>full_text\<close>
  and \<open>current_response_id\<close>. What the loop does with a delta besides appending it (the
  source prints it) is the argument \<open>obs\<close>, acting on the output.
\<close>

fun search_streaming_loop ::
  "(string \<Rightarrow> 'o \<Rightarrow> 'o) \<Rightarrow> stream_event list \<Rightarrow> string list \<times> string option \<times> 'o
     \<Rightarrow> string list \<times> string option \<times> 'o" where
  "search_streaming_loop obs [] acc = acc"
| "search_streaming_loop obs (event # rest) (full_text, current_response_id, out) =
     (if ev_type event = ''response.output_text.delta'' then
        search_streaming_loop obs rest
          (full_text @ [ev_delta event], current_response_id, obs (ev_delta event) out)
      else if ev_type event = ''response.completed'' then
        search_streaming_loop obs rest (full_text, Some (ev_response_id event), out)
      else search_streaming_loop obs rest (full_text, current_response_id, out))"

text \<open>
  \<open>print(event.delta, end="", flush=True)\<close>, on a standard output that accepts the
  write. The print that can raise is in the section on printing below.
\<close>

definition print_delta :: "string \<Rightarrow> string \<Rightarrow> string" where
  "print_delta d out = py_print d [] out"

definition search_streaming ::
  "pdf_search_assistant \<Rightarrow> string \<Rightarrow> string \<Rightarrow> py_exception + event_stream
     \<Rightarrow> (py_exception + unit) \<times> pdf_search_assistant" where
  "search_streaming self q m answer =
     (case truthy (vector_store_id self) of
        None \<Rightarrow> (Inl vector_store_error, self)
      | Some vs \<Rightarrow>
        (let prev = previous_response_id (conversation_history self);
            s1 = self\<lparr>stdout := py_print ''Response: '' []
                          (py_print rule60 [nl]
                             (py_print (nl # ''Searching: '' @ q) [nl] (stdout self)))\<rparr>;
            s2 = s1\<lparr>calls := calls s1 @
                          [ResponsesCreate
                             (file_search_request q m prev vs True)]\<rparr>
        in (case answer of
             Inl e \<Rightarrow> (Inl e, s2)
           | Inr stream \<Rightarrow>
               (case search_streaming_loop print_delta (events stream) ([], None, stdout s2) of
                  (full_text, current_response_id, out) \<Rightarrow>
                    (case interruption stream of
                       Some e \<Rightarrow> (Inl e, s2\<lparr>stdout := out\<rparr>)
                     | None \<Rightarrow>
                         (Inr (),
                          s2\<lparr>stdout := py_print (nl # rule60) [nl] out,
                             conversation_history := conversation_history s2 @
                               [\<lparr>query = q, response = concat full_text,
                                 response_id = current_response_id\<rparr>]\<rparr>))))))"

text \<open>\<open>create_vector_store\<close>: the answer is the id of the created store.\<close>

definition create_vector_store ::
  "pdf_search_assistant \<Rightarrow> string \<Rightarrow> py_exception + string
     \<Rightarrow> (py_exception + string) \<times> pdf_search_assistant" where
  "create_vector_store self name answer =
     (let s1 = self\<lparr>stdout := py_print (''Creating vector store: '' @ name) [nl] (stdout self)\<rparr>;
          s2 = s1\<lparr>calls := calls s1 @ [VectorStoresCreate name]\<rparr>
      in case answer of
           Inl e \<Rightarrow> (Inl e, s2)
         | Inr vid \<Rightarrow>
             (Inr vid,
              s2\<lparr>vector_store_id := Some vid,
                 stdout := py_print (check_mark @ '' Created vector store with ID: '' @ vid) [nl]
                             (stdout s2)\<rparr>))"

text \<open>\<open>os.path.basename\<close>: what follows the last slash.\<close>

definition basename :: "string \<Rightarrow> string" where
  "basename p = rev (takeWhile (\<lambda>c. c \<noteq> CHR ''/'') (rev p))"

text \<open>
  The answers \<open>upload_pdf\<close> can get: whether \<open>open\<close> raises, the id \<open>files.create\<close>
  returns, and whether \<open>vector_stores.files.create\<close> raises. The body of the \<open>try\<close> is
  \<open>upload_pdf_body\<close>; a later call is issued only when the earlier ones returned.
\<close>

record upload_answers =
  open_raises :: "py_exception option"
  files_create :: "py_exception + string"
  vector_stores_files_create :: "py_exception option"

definition upload_pdf_body ::
  "pdf_search_assistant \<Rightarrow> string \<Rightarrow> string \<Rightarrow> upload_answers
     \<Rightarrow> (py_exception + string) \<times> pdf_search_assistant" where
  "upload_pdf_body self vs file_path ans =
     (case open_raises ans of
        Some e \<Rightarrow> (Inl e, self)
      | None \<Rightarrow>
          (let s1 = self\<lparr>calls := calls self @ [FilesCreate file_path]\<rparr>
           in case files_create ans of
                Inl e \<Rightarrow> (Inl e, s1)
              | Inr file_id \<Rightarrow>
                  (let s2 = s1\<lparr>calls := calls s1 @ [VectorStoresFilesCreate vs file_id]\<rparr>
                   in case vector_stores_files_create ans of
                        Some e \<Rightarrow> (Inl e, s2)
                      | None \<Rightarrow> (Inr file_id, s2))))"

definition upload_pdf ::
  "pdf_search_assistant \<Rightarrow> string \<Rightarrow> upload_answers
     \<Rightarrow> (py_exception + (string \<times> string) list) \<times> pdf_search_assistant" where
  "upload_pdf self file_path ans =
     (case truthy (vector_store_id self) of
        None \<Rightarrow> (Inl vector_store_error, self)
      | Some vs \<Rightarrow>
        (let file_name = basename file_path;
            s0 = self\<lparr>stdout := py_print (''Uploading '' @ file_name @ ''...'') [nl] (stdout self)\<rparr>
        in (case upload_pdf_body s0 vs file_path ans of
             (Inr file_id, s1) \<Rightarrow>
               (Inr [(''file'', file_name), (''status'', ''success''), (''file_id'', file_id)],
                s1\<lparr>stdout := py_print (check_mark @ '' Successfully uploaded: '' @ file_name) [nl]
                                (stdout s1)\<rparr>)
           | (Inl e, s1) \<Rightarrow>
               if is_Exception e then
                 (Inr [(''file'', file_name), (''status'', ''failed''), (''error'', str_exc e)],
                  s1\<lparr>stdout := py_print (cross_mark @ '' Failed to upload '' @ file_name @ '': ''
                                             @ str_exc e) [nl] (stdout s1)\<rparr>)
               else (Inl e, s1))))"

text \<open>
  A sequence of calls on one assistant, as the loops of \<open>main\<close> issue them. A call that
  raises is caught by the caller and the next one runs on the state it left.
\<close>

datatype turn =
  SearchTurn string string "py_exception + api_response"
| StreamingTurn string string "py_exception + event_stream"

fun run_turn :: "pdf_search_assistant \<Rightarrow> turn \<Rightarrow> pdf_search_assistant" where
  "run_turn self (SearchTurn q m answer) = snd (search self q m answer)"
| "run_turn self (StreamingTurn q m answer) = snd (search_streaming self q m answer)"

fun run_turns :: "pdf_search_assistant \<Rightarrow> turn list \<Rightarrow> pdf_search_assistant" where
  "run_turns self [] = self"
| "run_turns self (t # ts) = run_turns (run_turn self t) ts"

text \<open>
  The text and the response id a stream aggregates to: the accumulators of the loop at its
  end, whatever is done with the deltas on the way.
\<close>

definition aggregate :: "stream_event list \<Rightarrow> string \<times> string option" where
  "aggregate evs =
     (case search_streaming_loop (\<lambda>d u. u) evs ([], None, ()) of
        (full_text, current_response_id, u) \<Rightarrow> (concat full_text, current_response_id))"

text \<open>
  A turn succeeds when its request returns, the text can be read off the response, and,
  for a stream, the iteration ends without raising and a completed event set the id.
\<close>

fun turn_succeeds :: "turn \<Rightarrow> bool" where
  "turn_succeeds (SearchTurn q m (Inl e)) = False"
| "turn_succeeds (SearchTurn q m (Inr r)) =
     (case response_text r of Inl e \<Rightarrow> False | Inr txt \<Rightarrow> True)"
| "turn_succeeds (StreamingTurn q m (Inl e)) = False"
| "turn_succeeds (StreamingTurn q m (Inr s)) =
     (interruption s = None \<and> snd (aggregate (events s)) \<noteq> None)"

fun turn_id :: "turn \<Rightarrow> string option" where
  "turn_id (SearchTurn q m (Inl e)) = None"
| "turn_id (SearchTurn q m (Inr r)) = Some (resp_id r)"
| "turn_id (StreamingTurn q m (Inl e)) = None"
| "turn_id (StreamingTurn q m (Inr s)) = snd (aggregate (events s))"

section \<open>Demo 2: InvestmentAdvisor\<close>

record investment_advisor = process_io +
  conversation_id :: "string option"

definition init_advisor :: investment_advisor where
  "init_advisor = \<lparr>stdout = [], calls = [], conversation_id = None\<rparr>"

text \<open>What the streaming loop reports while it runs: a delta, or the start of an analysis.\<close>

datatype notice = DeltaNotice string | RunningAnalysis

text \<open>
  The loop of \<open>_stream_response\<close>, with the accumulator \<open>full_text\<close> and the field
  \<open>self.conversation_id\<close>, which the loop assigns while it runs. The reporting is the
  argument \<open>obs\<close>; \<open>hasattr(event, 'item') and event.item.type == "code_interpreter_call"\<close>
  is the test on \<open>ev_item_type\<close>.
\<close>

fun stream_response_loop ::
  "(notice \<Rightarrow> 'o \<Rightarrow> 'o) \<Rightarrow> stream_event list \<Rightarrow> string list \<times> string option \<times> 'o
     \<Rightarrow> string list \<times> string option \<times> 'o" where
  "stream_response_loop obs [] acc = acc"
| "stream_response_loop obs (event # rest) (full_text, cid, out) =
     (if ev_type event = ''response.output_text.delta'' then
        stream_response_loop obs rest
          (full_text @ [ev_delta event], cid, obs (DeltaNotice (ev_delta event)) out)
      else if ev_type event = ''response.output_item.added'' then
        (if ev_item_type event = Some ''code_interpreter_call'' then
           stream_response_loop obs rest (full_text, cid, obs RunningAnalysis out)
         else stream_response_loop obs rest (full_text, cid, out))
      else if ev_type event = ''response.completed'' then
        stream_response_loop obs rest (full_text, Some (ev_response_id event), out)
      else stream_response_loop obs rest (full_text, cid, out))"

text \<open>
  \<open>print(event.delta, end="", flush=True)\<close> and
  \<open>print("\n\n[Running analysis...]", flush=True)\<close>, on a standard output that accepts
  the write.
\<close>

fun print_notice :: "notice \<Rightarrow> string \<Rightarrow> string" where
  "print_notice (DeltaNotice d) out = py_print d [] out"
| "print_notice RunningAnalysis out = py_print (nl # nl # ''[Running analysis...]'') [nl] out"

definition advisor_request ::
  "string \<Rightarrow> string \<Rightarrow> string option \<Rightarrow> tool_config list \<Rightarrow> bool \<Rightarrow> responses_request" where
  "advisor_request q m prev tools s =
     \<lparr>req_input = q, req_model = m, req_previous_response_id = prev,
      req_tools = tools, req_stream = s\<rparr>"

text \<open>\<open>_stream_response\<close>.\<close>

definition stream_response ::
  "investment_advisor \<Rightarrow> string \<Rightarrow> tool_config list \<Rightarrow> string \<Rightarrow> py_exception + event_stream
     \<Rightarrow> (py_exception + string) \<times> investment_advisor" where
  "stream_response self q tools m answer =
     (let s1 = self\<lparr>stdout := py_print ''Investment Advisor: '' []
                        (py_print rule60 [nl]
                           (py_print (''Query: '' @ q) [nl]
                              (py_print (nl # rule60) [nl] (stdout self))))\<rparr>;
          s2 = s1\<lparr>calls := calls s1 @
                        [ResponsesCreate (advisor_request q m (conversation_id self) tools True)]\<rparr>
      in case answer of
           Inl e \<Rightarrow> (Inl e, s2)
         | Inr stream \<Rightarrow>
             (case stream_response_loop print_notice (events stream)
                     ([], conversation_id s2, stdout s2) of
                (full_text, cid, out) \<Rightarrow>
                  (case interruption stream of
                     Some e \<Rightarrow> (Inl e, s2\<lparr>stdout := out, conversation_id := cid\<rparr>)
                   | None \<Rightarrow>
                       (Inr (concat full_text),
                        s2\<lparr>stdout := py_print (nl # rule60) [nl] out,
                           conversation_id := cid\<rparr>))))"

text \<open>
  \<open>_sync_response\<close>: the id is assigned before the text is read off the response, so it
  stays assigned when reading the text raises.
\<close>

definition sync_response ::
  "investment_advisor \<Rightarrow> string \<Rightarrow> tool_config list \<Rightarrow> string \<Rightarrow> py_exception + api_response
     \<Rightarrow> (py_exception + string) \<times> investment_advisor" where
  "sync_response self q tools m answer =
     (let s1 = self\<lparr>calls := calls self @
                        [ResponsesCreate (advisor_request q m (conversation_id self) tools False)]\<rparr>
      in case answer of
           Inl e \<Rightarrow> (Inl e, s1)
         | Inr r \<Rightarrow> (response_text r, s1\<lparr>conversation_id := Some (resp_id r)\<rparr>))"

text \<open>
  \<open>get_investment_suggestion\<close>: the flag \<open>stream\<close> selects the path, and with it the kind
  of answer the service gives.
\<close>

datatype service_answer =
  SyncAnswer "py_exception + api_response"
| StreamAnswer "py_exception + event_stream"

fun get_investment_suggestion ::
  "investment_advisor \<Rightarrow> string \<Rightarrow> string \<Rightarrow> bool \<Rightarrow> service_answer
     \<Rightarrow> (py_exception + string) \<times> investment_advisor" where
  "get_investment_suggestion self q m use_code_interpreter (StreamAnswer a) =
     stream_response self q (if use_code_interpreter then [CodeInterpreter] else []) m a"
| "get_investment_suggestion self q m use_code_interpreter (SyncAnswer a) =
     sync_response self q (if use_code_interpreter then [CodeInterpreter] else []) m a"

definition reset_conversation :: "investment_advisor \<Rightarrow> investment_advisor" where
  "reset_conversation self =
     self\<lparr>conversation_id := None,
          stdout := py_print ''Conversation reset.'' [nl] (stdout self)\<rparr>"

text \<open>A sequence of calls on one advisor, and what makes one of them a successful turn.\<close>

datatype advisor_turn = AdvisorTurn string string bool service_answer

fun run_advisor_turn :: "investment_advisor \<Rightarrow> advisor_turn \<Rightarrow> investment_advisor" where
  "run_advisor_turn self (AdvisorTurn q m ci a) = snd (get_investment_suggestion self q m ci a)"

fun run_advisor_turns :: "investment_advisor \<Rightarrow> advisor_turn list \<Rightarrow> investment_advisor" where
  "run_advisor_turns self [] = self"
| "run_advisor_turns self (t # ts) = run_advisor_turns (run_advisor_turn self t) ts"

fun advisor_turn_succeeds :: "advisor_turn \<Rightarrow> bool" where
  "advisor_turn_succeeds (AdvisorTurn q m ci (SyncAnswer a)) = turn_succeeds (SearchTurn q m a)"
| "advisor_turn_succeeds (AdvisorTurn q m ci (StreamAnswer a)) =
     turn_succeeds (StreamingTurn q m a)"

fun advisor_turn_id :: "advisor_turn \<Rightarrow> string option" where
  "advisor_turn_id (AdvisorTurn q m ci (SyncAnswer a)) = turn_id (SearchTurn q m a)"
| "advisor_turn_id (AdvisorTurn q m ci (StreamAnswer a)) = turn_id (StreamingTurn q m a)"

section \<open>What a stream contributes\<close>

text \<open>
  The deltas of the text events of a stream, in order, and the id of its last completed
  event, falling back on a given id when there is none.
\<close>

definition delta_texts :: "stream_event list \<Rightarrow> string list" where
  "delta_texts evs =
     map ev_delta (filter (\<lambda>e. ev_type e = ''response.output_text.delta'') evs)"

definition completed_ids :: "stream_event list \<Rightarrow> string list" where
  "completed_ids evs =
     map ev_response_id (filter (\<lambda>e. ev_type e = ''response.completed'') evs)"

definition last_completed :: "stream_event list \<Rightarrow> string option \<Rightarrow> string option" where
  "last_completed evs rid =
     (if completed_ids evs = [] then rid else Some (last (completed_ids evs)))"

text \<open>The events of the two kinds the spec's synthetic stream is made of.\<close>

definition text_delta :: "string \<Rightarrow> stream_event" where
  "text_delta d =
     \<lparr>ev_type = ''response.output_text.delta'', ev_delta = d, ev_response_id = [],
      ev_item_type = None\<rparr>"

definition turn_completed :: "string \<Rightarrow> stream_event" where
  "turn_completed i =
     \<lparr>ev_type = ''response.completed'', ev_delta = [], ev_response_id = i,
      ev_item_type = None\<rparr>"

text \<open>
  The spec's non-streaming equivalent: the synthetic event list
  \<open>[TextDelta{fullText}, TurnCompleted{turnId}]\<close>, as a stream that ends without raising.
\<close>

definition synthetic_stream :: "string \<Rightarrow> string \<Rightarrow> event_stream" where
  "synthetic_stream full_text tid =
     \<lparr>events = [text_delta full_text, turn_completed tid], interruption = None\<rparr>"

text \<open>The event types each loop has a branch for.\<close>

definition recognized1 :: "stream_event \<Rightarrow> bool" where
  "recognized1 e =
     (ev_type e = ''response.output_text.delta'' \<or> ev_type e = ''response.completed'')"

definition recognized2 :: "stream_event \<Rightarrow> bool" where
  "recognized2 e =
     (ev_type e = ''response.output_text.delta'' \<or> ev_type e = ''response.output_item.added''
      \<or> ev_type e = ''response.completed'')"

text \<open>The events of a stream up to and including its first completed event.\<close>

fun upto_completed :: "stream_event list \<Rightarrow> stream_event list" where
  "upto_completed [] = []"
| "upto_completed (e # es) =
     (if ev_type e = ''response.completed'' then [e] else e # upto_completed es)"

text \<open>What the loop of \<open>_stream_response\<close> reports for a stream, in order.\<close>

fun notices :: "stream_event list \<Rightarrow> notice list" where
  "notices [] = []"
| "notices (e # es) =
     (if ev_type e = ''response.output_text.delta'' then DeltaNotice (ev_delta e) # notices es
      else if ev_type e = ''response.output_item.added''
              \<and> ev_item_type e = Some ''code_interpreter_call''
      then RunningAnalysis # notices es
      else notices es)"

section \<open>Printing that can raise\<close>

text \<open>
  A write to the standard output can raise: \<open>print\<close> raises UnicodeEncodeError on a text
  that the encoding of the stream cannot represent, and an OSError on a closed stream. A
  printer takes the text to write and the output so far, and gives the new output or the
  exception. The loops and \<open>search_streaming\<close> as defined above are the case of
  \<open>always_prints\<close>, a standard output that accepts every write; \<open>ascii_prints\<close> is a
  standard output whose encoding is ASCII.
\<close>

type_synonym printer = "string \<Rightarrow> string \<Rightarrow> py_exception + string"

definition always_prints :: printer where
  "always_prints s out = Inr (out @ s)"


text \<open>
  The loop of \<open>search_streaming\<close> with an observer that can raise. The observer is called
  before the delta is appended, as in the source, so that when it raises the iteration
  ends there: the result is the accumulators as they were and the exception.
\<close>

fun search_streaming_loop_raising ::
  "(string \<Rightarrow> 'o \<Rightarrow> py_exception + 'o) \<Rightarrow> stream_event list
     \<Rightarrow> string list \<times> string option \<times> 'o
     \<Rightarrow> (string list \<times> string option \<times> 'o) \<times> py_exception option" where
  "search_streaming_loop_raising obs [] acc = (acc, None)"
| "search_streaming_loop_raising obs (event # rest) (full_text, current_response_id, out) =
     (if ev_type event = ''response.output_text.delta'' then
        (case obs (ev_delta event) out of
           Inl e \<Rightarrow> ((full_text, current_response_id, out), Some e)
         | Inr out' \<Rightarrow>
             search_streaming_loop_raising obs rest
               (full_text @ [ev_delta event], current_response_id, out'))
      else if ev_type event = ''response.completed'' then
        search_streaming_loop_raising obs rest (full_text, Some (ev_response_id event), out)
      else search_streaming_loop_raising obs rest (full_text, current_response_id, out))"

text \<open>
  \<open>search_streaming\<close> with every \<open>print\<close> of the method going through the printer. An
  exception of a \<open>print\<close> propagates like any other: what follows it in the method does
  not run.
\<close>

definition search_streaming_printing ::
  "printer \<Rightarrow> pdf_search_assistant \<Rightarrow> string \<Rightarrow> string \<Rightarrow> py_exception + event_stream
     \<Rightarrow> (py_exception + unit) \<times> pdf_search_assistant" where
  "search_streaming_printing pr self q m answer =
     (case truthy (vector_store_id self) of
        None \<Rightarrow> (Inl vector_store_error, self)
      | Some vs \<Rightarrow>
        (let prev = previous_response_id (conversation_history self)
         in (case pr ((nl # ''Searching: '' @ q) @ [nl]) (stdout self) of
               Inl e \<Rightarrow> (Inl e, self)
             | Inr o1 \<Rightarrow>
            (case pr (rule60 @ [nl]) o1 of
               Inl e \<Rightarrow> (Inl e, self\<lparr>stdout := o1\<rparr>)
             | Inr o2 \<Rightarrow>
            (case pr ''Response: '' o2 of
               Inl e \<Rightarrow> (Inl e, self\<lparr>stdout := o2\<rparr>)
             | Inr o3 \<Rightarrow>
            (let s2 = self\<lparr>stdout := o3,
                          calls := calls self @
                            [ResponsesCreate (file_search_request q m prev vs True)]\<rparr>
             in (case answer of
                   Inl e \<Rightarrow> (Inl e, s2)
                 | Inr stream \<Rightarrow>
                     (case search_streaming_loop_raising pr (events stream) ([], None, o3) of
                        ((full_text, current_response_id, out), Some e) \<Rightarrow>
                          (Inl e, s2\<lparr>stdout := out\<rparr>)
                      | ((full_text, current_response_id, out), None) \<Rightarrow>
                          (case interruption stream of
                             Some e \<Rightarrow> (Inl e, s2\<lparr>stdout := out\<rparr>)
                           | None \<Rightarrow>
                               (case pr ((nl # rule60) @ [nl]) out of
                                  Inl e \<Rightarrow> (Inl e, s2\<lparr>stdout := out\<rparr>)
                                | Inr o4 \<Rightarrow>
                                    (Inr (),
                                     s2\<lparr>stdout := o4,
                                        conversation_history := conversation_history s2 @
                                          [\<lparr>query = q, response = concat full_text,
                                            response_id = current_response_id\<rparr>]\<rparr>)))))))))))"

text \<open>The loop of \<open>_stream_response\<close> with an observer that can raise.\<close>

fun stream_response_loop_raising ::
  "(notice \<Rightarrow> 'o \<Rightarrow> py_exception + 'o) \<Rightarrow> stream_event list
     \<Rightarrow> string list \<times> string option \<times> 'o
     \<Rightarrow> (string list \<times> string option \<times> 'o) \<times> py_exception option" where
  "stream_response_loop_raising obs [] acc = (acc, None)"
| "stream_response_loop_raising obs (event # rest) (full_text, cid, out) =
     (if ev_type event = ''response.output_text.delta'' then
        (case obs (DeltaNotice (ev_delta event)) out of
           Inl e \<Rightarrow> ((full_text, cid, out), Some e)
         | Inr out' \<Rightarrow>
             stream_response_loop_raising obs rest (full_text @ [ev_delta event], cid, out'))
      else if ev_type event = ''response.output_item.added'' then
        (if ev_item_type event = Some ''code_interpreter_call'' then
           (case obs RunningAnalysis out of
              Inl e \<Rightarrow> ((full_text, cid, out), Some e)
            | Inr out' \<Rightarrow> stream_response_loop_raising obs rest (full_text, cid, out'))
         else stream_response_loop_raising obs rest (full_text, cid, out))
      else if ev_type event = ''response.completed'' then
        stream_response_loop_raising obs rest (full_text, Some (ev_response_id event), out)
      else stream_response_loop_raising obs rest (full_text, cid, out))"

text \<open>What a printer does with a notice of the loop of \<open>_stream_response\<close>.\<close>

fun print_notice_with :: "printer \<Rightarrow> notice \<Rightarrow> string \<Rightarrow> py_exception + string" where
  "print_notice_with pr (DeltaNotice d) out = pr d out"
| "print_notice_with pr RunningAnalysis out =
     pr ((nl # nl # ''[Running analysis...]'') @ [nl]) out"

section \<open>Personal assistant: the local tool handlers\<close>





section \<open>The orchestration loop of the spec\<close>

text \<open>
  Modelled from the spec: the repository has no ToolRegistry and no OrchestrationLoop; its
  only tool loop runs inside the agents library, behind \<open>Runner.run\<close>, which the sources
  call and do not contain. What follows is section 4.1 (\<open>invokeLocal\<close>), section 4.4
  (\<open>run\<close>, steps 2 and 3) and the propagation policy of section 7, in the spec's words.
\<close>

datatype spec_tool = LocalTool "string \<Rightarrow> py_exception + string" | RemoteTool

datatype run_error =
  UnknownToolError string
| NotLocalError string
| ToolExecutionError string py_exception
| ToolLoopExceededError

record tool_call =
  toolName :: string
  args :: string
  result :: string

record aggregation_result =
  finalText :: string
  toolCalls :: "tool_call list"
  turnId :: "string option"
  failed :: bool

text \<open>
  Modelled from the spec: \<open>invokeLocal(name, args)\<close> looks up a LOCAL tool and calls its
  handler; it fails with UnknownToolError if absent, NotLocalError if the tool is REMOTE,
  and wraps the handler's own error as ToolExecutionError.
\<close>

definition invokeLocal ::
  "(string \<times> spec_tool) list \<Rightarrow> string \<Rightarrow> string \<Rightarrow> run_error + string" where
  "invokeLocal registry name a =
     (case map_of registry name of
        None \<Rightarrow> Inl (UnknownToolError name)
      | Some RemoteTool \<Rightarrow> Inl (NotLocalError name)
      | Some (LocalTool handler) \<Rightarrow>
          (case handler a of
             Inl cause \<Rightarrow> Inl (ToolExecutionError name cause)
           | Inr out \<Rightarrow> Inr out))"

text \<open>
  Modelled from the spec: one request to the service and its aggregation yield either a
  final result or a pause on a call of a LOCAL tool (call id, tool name, arguments). The
  service is any function of the tool outputs fed back so far, keyed by call id.
\<close>

datatype round_outcome = Final aggregation_result | Paused string string string

text \<open>
  Modelled from the spec: step 3 of \<open>run\<close>. On a pause the tool is invoked, its output
  (or, for a handler error, the error as a string) is fed back, and step 2 is repeated;
  the loop has the fixed maximum depth \<open>max_depth\<close>, and exceeding it fails with
  ToolLoopExceededError. The second component counts the tool rounds performed.
\<close>

function tool_loop ::
  "(string \<times> spec_tool) list \<Rightarrow> ((string \<times> string) list \<Rightarrow> round_outcome) \<Rightarrow> nat \<Rightarrow> nat
     \<Rightarrow> (string \<times> string) list \<Rightarrow> (run_error + aggregation_result) \<times> nat" where
  "tool_loop registry service max_depth depth fed =
     (case service fed of
        Final r \<Rightarrow> (Inr r, depth)
      | Paused call_id name a \<Rightarrow>
          (if max_depth \<le> depth then (Inl ToolLoopExceededError, depth)
           else case invokeLocal registry name a of
                  Inr out \<Rightarrow>
                    tool_loop registry service max_depth (Suc depth) (fed @ [(call_id, out)])
                | Inl (ToolExecutionError n cause) \<Rightarrow>
                    tool_loop registry service max_depth (Suc depth)
                      (fed @ [(call_id, str_exc cause)])
                | Inl err \<Rightarrow> (Inl err, depth)))"
  by pat_completeness auto
termination
  by (relation "measure (\<lambda>(registry, service, max_depth, depth, fed). max_depth - depth)") auto

definition run ::
  "(string \<times> spec_tool) list \<Rightarrow> ((string \<times> string) list \<Rightarrow> round_outcome) \<Rightarrow> nat
     \<Rightarrow> (run_error + aggregation_result) \<times> nat" where
  "run registry service max_depth = tool_loop registry service max_depth 0 []"

declare tool_loop.simps [simp del]

text \<open>
  Modelled from the spec: the tool outputs fed back to the service after \<open>n\<close> rounds of
  local tool execution, when the service paused on each of its first \<open>n\<close> requests and
  each of the tools it named could be invoked; \<open>None\<close> when the turn ended earlier.
\<close>

fun fed_at ::
  "(string \<times> spec_tool) list \<Rightarrow> ((string \<times> string) list \<Rightarrow> round_outcome) \<Rightarrow> nat
     \<Rightarrow> (string \<times> string) list option" where
  "fed_at registry service 0 = Some []"
| "fed_at registry service (Suc n) =
     (case fed_at registry service n of
        None \<Rightarrow> None
      | Some fed \<Rightarrow>
          (case service fed of
             Final r \<Rightarrow> None
           | Paused call_id name a \<Rightarrow>
               (case invokeLocal registry name a of
                  Inr out \<Rightarrow> Some (fed @ [(call_id, out)])
                | Inl (ToolExecutionError n cause) \<Rightarrow> Some (fed @ [(call_id, str_exc cause)])
                | Inl err \<Rightarrow> None)))"

text \<open>
  A service that requests local tool execution beyond the bound: after \<open>max_depth\<close>
  rounds of tool execution its next answer is a pause again. What the service would do
  after that, and on feedback this turn never produces, is left open.
\<close>

definition requests_beyond ::
  "(string \<times> spec_tool) list \<Rightarrow> ((string \<times> string) list \<Rightarrow> round_outcome) \<Rightarrow> nat \<Rightarrow> bool" where
  "requests_beyond registry service max_depth =
     (case fed_at registry service max_depth of
        None \<Rightarrow> False
      | Some fed \<Rightarrow> (case service fed of Final r \<Rightarrow> False | Paused call_id name a \<Rightarrow> True))"

section \<open>Example inputs\<close>

text \<open>An assistant whose vector store exists, and one that has already completed a turn.\<close>

definition example_assistant :: pdf_search_assistant where
  "example_assistant = init_assistant\<lparr>vector_store_id := Some ''vs_1''\<rparr>"

definition chained_assistant :: pdf_search_assistant where
  "chained_assistant =
     example_assistant\<lparr>conversation_history :=
       [\<lparr>query = ''q0'', response = ''a0'', response_id = Some ''resp_0''\<rparr>]\<rparr>"

definition example_response :: api_response where
  "example_response = \<lparr>resp_id = ''resp_1'', resp_output = [Message [OutputText ''a1'']]\<rparr>"

definition example_stream :: event_stream where
  "example_stream =
     \<lparr>events = [text_delta ''a'', text_delta ''b'', turn_completed ''resp_2''],
      interruption = None\<rparr>"

text \<open>A stream that ends after one delta, with no completed event, and one cut by an exception.\<close>

definition partial_stream :: event_stream where
  "partial_stream = \<lparr>events = [text_delta ''par''], interruption = None\<rparr>"

definition broken_stream :: event_stream where
  "broken_stream =
     \<lparr>events = [text_delta ''par''],
      interruption = Some (PyExc OtherException ''connection lost'')\<rparr>"

text \<open>A stream that goes on after its first completed event.\<close>

definition late_events :: "stream_event list" where
  "late_events = [turn_completed ''t1'', text_delta ''late'', turn_completed ''t2'']"

text \<open>An event of a type neither loop has a branch for.\<close>

definition unknown_event :: stream_event where
  "unknown_event =
     \<lparr>ev_type = ''response.in_progress'', ev_delta = ''x'', ev_response_id = ''r'',
      ev_item_type = None\<rparr>"

definition example_turns :: "turn list" where
  "example_turns =
     [SearchTurn ''q1'' ''gpt-4o-mini'' (Inr example_response),
      StreamingTurn ''q2'' ''gpt-4o-mini'' (Inr example_stream)]"

definition example_advisor_turns :: "advisor_turn list" where
  "example_advisor_turns =
     [AdvisorTurn ''q1'' ''gpt-4o'' False (SyncAnswer (Inr example_response)),
      AdvisorTurn ''q2'' ''gpt-4o'' True (StreamAnswer (Inr example_stream))]"

text \<open>A registry with one LOCAL tool, and a service that asks for it on every round.\<close>

definition example_registry :: "(string \<times> spec_tool) list" where
  "example_registry = [(''calc'', LocalTool (\<lambda>a. Inr ''4''))]"

definition insistent_service :: "(string \<times> string) list \<Rightarrow> round_outcome" where
  "insistent_service fed = Paused ''call_1'' ''calc'' ''2+2''"

text \<open>A service that asks for the tool six times and would then finish.\<close>

definition six_round_service :: "(string \<times> string) list \<Rightarrow> round_outcome" where
  "six_round_service fed =
     (if length fed < 6 then Paused ''call_1'' ''calc'' ''2+2''
      else Final \<lparr>finalText = ''done'', toolCalls = [], turnId = Some ''t1'', failed = False\<rparr>)"

text \<open>
  A response with two messages around a tool call, as a turn with code execution gives,
  and the stream of the same response.
\<close>

definition two_message_response :: api_response where
  "two_message_response =
     \<lparr>resp_id = ''resp_1'',
      resp_output =
        [Message [OutputText ''a1''], OtherItem ''ResponseCodeInterpreterToolCall'',
         Message [OutputText ''a2'']]\<rparr>"

definition two_message_stream :: event_stream where
  "two_message_stream =
     \<lparr>events = [text_delta ''a1'', text_delta ''a2'', turn_completed ''resp_1''],
      interruption = None\<rparr>"


text \<open>An advisor that has completed a turn.\<close>

definition chained_advisor :: investment_advisor where
  "chained_advisor = init_advisor\<lparr>conversation_id := Some ''resp_0''\<rparr>"





section \<open>Properties of the streaming loops\<close>

lemma search_streaming_loop_char:
  "search_streaming_loop obs evs (ft, rid, out) =
     (ft @ delta_texts evs, last_completed evs rid, fold obs (delta_texts evs) out)"
  by (induction evs arbitrary: ft rid out)
     (simp_all add: delta_texts_def completed_ids_def last_completed_def)

lemma stream_response_loop_char:
  "stream_response_loop obs evs (ft, rid, out) =
     (ft @ delta_texts evs, last_completed evs rid, fold obs (notices evs) out)"
  by (induction evs arbitrary: ft rid out)
     (simp_all add: delta_texts_def completed_ids_def last_completed_def)

lemma aggregate_char: "aggregate evs = (concat (delta_texts evs), last_completed evs None)"
  by (simp add: aggregate_def search_streaming_loop_char)

lemma truthy_Some: "truthy v = Some vs \<Longrightarrow> v = Some vs"
  by (cases v) (auto split: if_splits)

lemma search_streaming_history:
  assumes "truthy (vector_store_id self) = Some vs" and "interruption st = None"
  shows "fst (search_streaming self q m (Inr st)) = Inr ()"
    and "vector_store_id (snd (search_streaming self q m (Inr st))) = vector_store_id self"
    and "conversation_history (snd (search_streaming self q m (Inr st))) =
           conversation_history self @
             [\<lparr>query = q, response = fst (aggregate (events st)),
               response_id = snd (aggregate (events st))\<rparr>]"
  using assms
  by (simp_all add: search_streaming_def Let_def search_streaming_loop_char aggregate_char)

lemma search_streaming_interrupted:
  assumes "truthy (vector_store_id self) = Some vs" and "interruption st = Some e"
  shows "fst (search_streaming self q m (Inr st)) = Inl e"
    and "vector_store_id (snd (search_streaming self q m (Inr st))) = vector_store_id self"
    and "conversation_history (snd (search_streaming self q m (Inr st))) =
           conversation_history self"
  using assms
  by (simp_all add: search_streaming_def Let_def search_streaming_loop_char)

lemma search_history:
  assumes "truthy (vector_store_id self) = Some vs" and "response_text r = Inr t"
  shows "fst (search self q m (Inr r)) = Inr t"
    and "vector_store_id (snd (search self q m (Inr r))) = vector_store_id self"
    and "conversation_history (snd (search self q m (Inr r))) =
           conversation_history self @
             [\<lparr>query = q, response = t, response_id = Some (resp_id r)\<rparr>]"
  using assms by (simp_all add: search_def Let_def)

lemma run_turn_succeeds:
  assumes "truthy (vector_store_id self) = Some vs" and "turn_succeeds t"
  shows "vector_store_id (run_turn self t) = vector_store_id self \<and>
         (\<exists>e. conversation_history (run_turn self t) = conversation_history self @ [e] \<and>
              response_id e = turn_id t) \<and> turn_id t \<noteq> None"
proof (cases t)
  case (SearchTurn q m a)
  with assms obtain r body where "a = Inr r" "response_text r = Inr body"
    by (cases a) (auto split: sum.splits)
  with assms SearchTurn show ?thesis
    by (simp add: search_history)
next
  case (StreamingTurn q m a)
  with assms obtain st where "a = Inr st" "interruption st = None"
      "snd (aggregate (events st)) \<noteq> None"
    by (cases a) auto
  with assms StreamingTurn show ?thesis
    by (simp add: search_streaming_history)
qed

lemma run_turns_append: "run_turns self (ts @ us) = run_turns (run_turns self ts) us"
  by (induction ts arbitrary: self) simp_all

lemma run_turns_succeed:
  assumes "truthy (vector_store_id self) = Some vs" and "list_all turn_succeeds ts"
  shows "vector_store_id (run_turns self ts) = vector_store_id self \<and>
         length (conversation_history (run_turns self ts)) =
           length (conversation_history self) + length ts \<and>
         (ts \<noteq> [] \<longrightarrow>
            previous_response_id (conversation_history (run_turns self ts)) = turn_id (last ts) \<and>
            turn_id (last ts) \<noteq> None)"
  using assms(2)
proof (induction ts rule: rev_induct)
  case Nil
  show ?case by simp
next
  case (snoc t ts)
  then have ih: "vector_store_id (run_turns self ts) = vector_store_id self"
      "length (conversation_history (run_turns self ts)) =
         length (conversation_history self) + length ts"
    and t: "turn_succeeds t"
    by simp_all
  from ih(1) assms(1) have "truthy (vector_store_id (run_turns self ts)) = Some vs"
    by simp
  from run_turn_succeeds [OF this t] ih show ?case
    by (auto simp: run_turns_append previous_response_id_def)
qed

lemma stream_response_conversation_id:
  "conversation_id (snd (stream_response self q tools m (Inr st))) =
     last_completed (events st) (conversation_id self)"
  by (cases "interruption st") (simp_all add: stream_response_def Let_def stream_response_loop_char)

lemma stream_response_text:
  "interruption st = None \<Longrightarrow>
     fst (stream_response self q tools m (Inr st)) = Inr (concat (delta_texts (events st)))"
  by (simp add: stream_response_def Let_def stream_response_loop_char)

lemma sync_response_result:
  "fst (sync_response self q tools m (Inr r)) = response_text r"
  "conversation_id (snd (sync_response self q tools m (Inr r))) = Some (resp_id r)"
  by (simp_all add: sync_response_def Let_def)

lemma run_advisor_turns_append:
  "run_advisor_turns self (ts @ us) = run_advisor_turns (run_advisor_turns self ts) us"
  by (induction ts arbitrary: self) simp_all

lemma last_completed_Some: "last_completed evs None = Some i \<Longrightarrow> last_completed evs rid = Some i"
  by (auto simp: last_completed_def split: if_splits)

lemma run_advisor_turn_succeeds:
  assumes "advisor_turn_succeeds t"
  shows "conversation_id (run_advisor_turn self t) = advisor_turn_id t \<and> advisor_turn_id t \<noteq> None"
proof (cases t)
  case (AdvisorTurn q m ci a)
  show ?thesis
  proof (cases a)
    case (SyncAnswer x)
    with assms AdvisorTurn obtain r where "x = Inr r" by (cases x) auto
    with SyncAnswer AdvisorTurn show ?thesis by (simp add: sync_response_result)
  next
    case (StreamAnswer x)
    with assms AdvisorTurn obtain st where x: "x = Inr st" and
      ok: "snd (aggregate (events st)) \<noteq> None"
      by (cases x) auto
    then obtain i where i: "last_completed (events st) None = Some i"
      by (auto simp: aggregate_char)
    have "last_completed (events st) (conversation_id self) = Some i"
      by (rule last_completed_Some [OF i])
    with i x StreamAnswer AdvisorTurn show ?thesis
      by (simp add: stream_response_conversation_id aggregate_char)
  qed
qed

lemmas example_defs =
  example_assistant_def chained_assistant_def example_response_def example_stream_def
  partial_stream_def broken_stream_def late_events_def unknown_event_def example_turns_def
  example_advisor_turns_def init_assistant_def init_advisor_def text_delta_def
  turn_completed_def

lemmas stream_defs = delta_texts_def completed_ids_def last_completed_def

section \<open>Conversation chaining\<close>

text \<open>
  Claim C1. After a sequence of turns that all succeed, the reference the next request is
  chained to is the response id of the last turn, and the history has grown by one entry
  per turn: started on an empty history it has exactly as many entries as there were
  turns. In demo 1 the reference is read off the last history entry; in demo 2, which
  keeps no history, it is the field \<open>conversation_id\<close>.
\<close>

theorem successful_turns_chain:
  "(truthy (vector_store_id self) \<noteq> None \<and> list_all turn_succeeds ts \<longrightarrow>
      length (conversation_history (run_turns self ts)) =
        length (conversation_history self) + length ts \<and>
      (ts \<noteq> [] \<longrightarrow>
         previous_response_id (conversation_history (run_turns self ts)) = turn_id (last ts) \<and>
         turn_id (last ts) \<noteq> None)) \<and>
   (list_all advisor_turn_succeeds ats \<and> ats \<noteq> [] \<longrightarrow>
      conversation_id (run_advisor_turns adv ats) = advisor_turn_id (last ats) \<and>
      advisor_turn_id (last ats) \<noteq> None)"
proof (intro conjI impI)
  assume "list_all advisor_turn_succeeds ats \<and> ats \<noteq> []"
  then obtain us u where ats: "ats = us @ [u]" and u: "advisor_turn_succeeds u"
    by (cases ats rule: rev_cases) auto
  from run_advisor_turn_succeeds [OF u, of "run_advisor_turns adv us"]
  show "conversation_id (run_advisor_turns adv ats) = advisor_turn_id (last ats)"
    and "advisor_turn_id (last ats) \<noteq> None"
    by (simp_all add: ats run_advisor_turns_append)
next
  assume a: "truthy (vector_store_id self) \<noteq> None \<and> list_all turn_succeeds ts"
  then obtain vs where vs: "truthy (vector_store_id self) = Some vs" by auto
  from run_turns_succeed [OF vs] a
  show "length (conversation_history (run_turns self ts)) =
          length (conversation_history self) + length ts"
    by simp
  assume "ts \<noteq> []"
  with run_turns_succeed [OF vs] a
  show "previous_response_id (conversation_history (run_turns self ts)) = turn_id (last ts)"
    and "turn_id (last ts) \<noteq> None"
    by simp_all
qed

lemma example_turns_succeed:
  "list_all turn_succeeds example_turns" "list_all advisor_turn_succeeds example_advisor_turns"
  by (simp_all add: example_defs aggregate_char stream_defs response_text_def)

lemma example_turn_ids:
  "turn_id (last example_turns) = Some ''resp_2''"
  "advisor_turn_id (last example_advisor_turns) = Some ''resp_2''"
  by (simp_all add: example_defs aggregate_char stream_defs)

theorem successful_turns_chain_witness:
  "truthy (vector_store_id example_assistant) \<noteq> None \<and>
   list_all turn_succeeds example_turns \<and> example_turns \<noteq> [] \<and>
   conversation_history example_assistant = [] \<and>
   length (conversation_history (run_turns example_assistant example_turns)) = 2 \<and>
   previous_response_id (conversation_history (run_turns example_assistant example_turns)) =
     Some ''resp_2'' \<and>
   list_all advisor_turn_succeeds example_advisor_turns \<and> example_advisor_turns \<noteq> [] \<and>
   conversation_id (run_advisor_turns init_advisor example_advisor_turns) = Some ''resp_2''"
proof -
  have h: "truthy (vector_store_id example_assistant) \<noteq> None"
      "conversation_history example_assistant = []"
      "example_turns \<noteq> []" "example_advisor_turns \<noteq> []"
      "length example_turns = 2"
    by (simp_all add: example_assistant_def init_assistant_def example_turns_def
          example_advisor_turns_def)
  from successful_turns_chain
         [of example_assistant example_turns example_advisor_turns init_advisor]
       h example_turns_succeed example_turn_ids
  show ?thesis by simp
qed

text \<open>
  What the paths do with a stream that has no completed event. In demo 1 a stream that
  simply ends is recorded with the response id \<open>None\<close>, and since the reference is read
  off the last entry it becomes \<open>None\<close>; a stream cut by an exception leaves the history,
  and with it the reference, as it was. In demo 2 \<open>conversation_id\<close> stays as it was
  either way.
\<close>

lemma stream_without_completion:
  assumes "truthy (vector_store_id self) \<noteq> None" and "completed_ids (events st) = []"
  shows "interruption st = None \<Longrightarrow>
           conversation_history (snd (search_streaming self q m (Inr st))) =
             conversation_history self @
               [\<lparr>query = q, response = concat (delta_texts (events st)), response_id = None\<rparr>]"
    and "interruption st = None \<Longrightarrow>
           previous_response_id (conversation_history (snd (search_streaming self q m (Inr st))))
             = None"
    and "interruption st \<noteq> None \<Longrightarrow>
           conversation_history (snd (search_streaming self q m (Inr st))) =
             conversation_history self"
    and "conversation_id (snd (stream_response adv q tools m (Inr st))) = conversation_id adv"
proof -
  from assms obtain vs where vs: "truthy (vector_store_id self) = Some vs" by auto
  from assms have none: "last_completed (events st) rid = rid" for rid
    by (simp add: last_completed_def)
  show "interruption st = None \<Longrightarrow>
           conversation_history (snd (search_streaming self q m (Inr st))) =
             conversation_history self @
               [\<lparr>query = q, response = concat (delta_texts (events st)), response_id = None\<rparr>]"
    by (simp add: search_streaming_history [OF vs] aggregate_char none)
  show "interruption st = None \<Longrightarrow>
           previous_response_id (conversation_history (snd (search_streaming self q m (Inr st))))
             = None"
    by (simp add: search_streaming_history [OF vs] aggregate_char none previous_response_id_def)
  show "interruption st \<noteq> None \<Longrightarrow>
           conversation_history (snd (search_streaming self q m (Inr st))) =
             conversation_history self"
    by (auto simp: search_streaming_interrupted [OF vs])
  show "conversation_id (snd (stream_response adv q tools m (Inr st))) = conversation_id adv"
    by (simp add: stream_response_conversation_id none)
qed

text \<open>
  Claim C2, at an input where the code breaks it. The claim: a turn whose stream ends
  without a completed event leaves the last-turn reference as it was, so that the next
  successful turn chains to the last successful one. The assistant below has completed a
  turn with the id \<open>resp_0\<close>. After a stream that ends without a completed event the
  attempt is recorded, as the claim says, but with the response id \<open>None\<close>: the reference
  is \<open>None\<close>, no longer \<open>resp_0\<close>, and the request of the next turn is sent with no
  previous response id. The sibling paths keep the reference: the advisor of demo 2 on the
  same stream, and the assistant itself when the stream is cut by an exception.
\<close>

theorem failed_stream_changes_reference:
  "completed_ids (events partial_stream) = [] \<and> interruption partial_stream = None \<and>
   previous_response_id (conversation_history chained_assistant) = Some ''resp_0'' \<and>
   previous_response_id
     (conversation_history
        (snd (search_streaming chained_assistant ''q'' ''m'' (Inr partial_stream)))) = None \<and>
   last (calls (snd (search_streaming
                       (snd (search_streaming chained_assistant ''q'' ''m'' (Inr partial_stream)))
                       ''q2'' ''m'' (Inr example_stream))))
     = ResponsesCreate (file_search_request ''q2'' ''m'' None ''vs_1'' True) \<and>
   conversation_id (snd (stream_response chained_advisor ''q'' [] ''m'' (Inr partial_stream)))
     = Some ''resp_0'' \<and>
   previous_response_id
     (conversation_history
        (snd (search_streaming chained_assistant ''q'' ''m'' (Inr broken_stream))))
     = Some ''resp_0''"
proof -
  have a: "completed_ids (events partial_stream) = []" by code_simp
  have b: "interruption partial_stream = None" by code_simp
  have c: "previous_response_id (conversation_history chained_assistant) = Some ''resp_0''"
    by code_simp
  have d: "previous_response_id
     (conversation_history
        (snd (search_streaming chained_assistant ''q'' ''m'' (Inr partial_stream)))) = None"
    by code_simp
  have e: "last (calls (snd (search_streaming
                       (snd (search_streaming chained_assistant ''q'' ''m'' (Inr partial_stream)))
                       ''q2'' ''m'' (Inr example_stream))))
     = ResponsesCreate (file_search_request ''q2'' ''m'' None ''vs_1'' True)"
    by code_simp
  have f: "conversation_id (snd (stream_response chained_advisor ''q'' [] ''m'' (Inr partial_stream)))
     = Some ''resp_0''"
    by code_simp
  have g: "previous_response_id
     (conversation_history
        (snd (search_streaming chained_assistant ''q'' ''m'' (Inr broken_stream))))
     = Some ''resp_0''"
    by code_simp
  show ?thesis
    by (intro conjI) (fact a, fact b, fact c, fact d, fact e, fact f, fact g)
qed

section \<open>Stream aggregation\<close>

text \<open>
  Claim C3, as the code has it. Neither loop leaves the iteration at a completed event:
  every event of the stream is processed. The text is the concatenation of all deltas of
  the stream, those after a completed event included, and the id is that of the last
  completed event, so that a later one overwrites an earlier one.
\<close>

theorem aggregation_runs_to_the_end:
  "aggregate evs = (concat (delta_texts evs), last_completed evs None) \<and>
   (case search_streaming_loop obs1 evs (ft, rid, out1) of
      (full_text, current_response_id, out) \<Rightarrow> (full_text, current_response_id)) =
     (ft @ delta_texts evs, last_completed evs rid) \<and>
   (case stream_response_loop obs2 evs (ft, rid, out2) of
      (full_text, cid, out) \<Rightarrow> (full_text, cid)) =
     (ft @ delta_texts evs, last_completed evs rid)"
  by (simp add: aggregate_char search_streaming_loop_char stream_response_loop_char)

text \<open>
  Claim C3 as stated fails: on a stream that goes on after its first completed event, the
  result differs from the result of the events up to that first completed event, in the
  text and in the id.
\<close>

theorem events_after_completion_count:
  "aggregate late_events = (''late'', Some ''t2'') \<and>
   aggregate (upto_completed late_events) = ([], Some ''t1'') \<and>
   aggregate late_events \<noteq> aggregate (upto_completed late_events)"
  by (simp add: aggregate_char late_events_def text_delta_def turn_completed_def stream_defs)

text \<open>
  Claim C4. The events \<open>TextDelta("a"), TextDelta("b"), TurnCompleted("t1")\<close> aggregate
  to the text \<open>ab\<close> and the id \<open>t1\<close>, and \<open>search_streaming\<close> returns on them without
  raising and records exactly that. In general, text deltas followed by a completed event
  aggregate to the concatenation of the deltas in order and the id of that event.
\<close>

theorem deltas_then_completed:
  "aggregate [text_delta ''a'', text_delta ''b'', turn_completed ''t1''] = (''ab'', Some ''t1'') \<and>
   (truthy (vector_store_id self) \<noteq> None \<longrightarrow>
      fst (search_streaming self q m
             (Inr \<lparr>events = [text_delta ''a'', text_delta ''b'', turn_completed ''t1''],
                   interruption = None\<rparr>)) = Inr () \<and>
      conversation_history
        (snd (search_streaming self q m
                (Inr \<lparr>events = [text_delta ''a'', text_delta ''b'', turn_completed ''t1''],
                      interruption = None\<rparr>))) =
        conversation_history self @
          [\<lparr>query = q, response = ''ab'', response_id = Some ''t1''\<rparr>]) \<and>
   (list_all (\<lambda>e. ev_type e = ''response.output_text.delta'') ds \<and>
    ev_type c = ''response.completed'' \<longrightarrow>
      aggregate (ds @ [c]) = (concat (map ev_delta ds), Some (ev_response_id c)))"
proof (intro conjI impI)
  show ex: "aggregate [text_delta ''a'', text_delta ''b'', turn_completed ''t1'']
              = (''ab'', Some ''t1'')"
    by (simp add: aggregate_char text_delta_def turn_completed_def stream_defs)
  {
    assume "truthy (vector_store_id self) \<noteq> None"
    then obtain vs where vs: "truthy (vector_store_id self) = Some vs" by auto
    show "fst (search_streaming self q m
             (Inr \<lparr>events = [text_delta ''a'', text_delta ''b'', turn_completed ''t1''],
                   interruption = None\<rparr>)) = Inr ()"
      by (simp add: search_streaming_history [OF vs])
    show "conversation_history
        (snd (search_streaming self q m
                (Inr \<lparr>events = [text_delta ''a'', text_delta ''b'', turn_completed ''t1''],
                      interruption = None\<rparr>))) =
        conversation_history self @
          [\<lparr>query = q, response = ''ab'', response_id = Some ''t1''\<rparr>]"
      by (simp add: search_streaming_history [OF vs] ex)
  }
  assume a: "list_all (\<lambda>e. ev_type e = ''response.output_text.delta'') ds \<and>
    ev_type c = ''response.completed''"
  then have "filter (\<lambda>e. ev_type e = ''response.output_text.delta'') ds = ds"
    by (simp add: list_all_iff)
  moreover from a have "filter (\<lambda>e. ev_type e = ''response.completed'') ds = []"
    by (auto simp: list_all_iff filter_empty_conv)
  ultimately show "aggregate (ds @ [c]) = (concat (map ev_delta ds), Some (ev_response_id c))"
    using a by (simp add: aggregate_char stream_defs)
qed

theorem deltas_then_completed_witness:
  "truthy (vector_store_id example_assistant) \<noteq> None \<and>
   conversation_history
     (snd (search_streaming example_assistant ''q'' ''m''
             (Inr \<lparr>events = [text_delta ''a'', text_delta ''b'', turn_completed ''t1''],
                   interruption = None\<rparr>))) =
     [\<lparr>query = ''q'', response = ''ab'', response_id = Some ''t1''\<rparr>] \<and>
   list_all (\<lambda>e. ev_type e = ''response.output_text.delta'') [text_delta ''x'', text_delta ''yz''] \<and>
   ev_type (turn_completed ''t9'') = ''response.completed'' \<and>
   aggregate ([text_delta ''x'', text_delta ''yz''] @ [turn_completed ''t9'']) = (''xyz'', Some ''t9'')"
  using deltas_then_completed [of example_assistant "''q''" "''m''"
          "[text_delta ''x'', text_delta ''yz'']" "turn_completed ''t9''"]
  by (simp add: example_assistant_def init_assistant_def text_delta_def turn_completed_def)

text \<open>
  Claim C10. An event whose type has no branch in the loop is skipped: the loops have no
  failing branch, and dropping every such event from a stream changes nothing in what a
  loop returns: not the text, not the id, not the output.
\<close>

theorem unrecognized_events_are_skipped:
  "search_streaming_loop obs1 (filter recognized1 evs) acc1 = search_streaming_loop obs1 evs acc1 \<and>
   stream_response_loop obs2 (filter recognized2 evs) acc2 = stream_response_loop obs2 evs acc2"
proof
  show "search_streaming_loop obs1 (filter recognized1 evs) acc1 = search_streaming_loop obs1 evs acc1"
  proof (induction evs arbitrary: acc1)
    case Nil
    show ?case by simp
  next
    case (Cons e es)
    obtain ft rid out where acc: "acc1 = (ft, rid, out)" by (cases acc1) auto
    show ?case unfolding acc using Cons by (simp add: recognized1_def)
  qed
  show "stream_response_loop obs2 (filter recognized2 evs) acc2 = stream_response_loop obs2 evs acc2"
  proof (induction evs arbitrary: acc2)
    case Nil
    show ?case by simp
  next
    case (Cons e es)
    obtain ft rid out where acc: "acc2 = (ft, rid, out)" by (cases acc2) auto
    show ?case unfolding acc using Cons by (simp add: recognized2_def)
  qed
qed

theorem unrecognized_events_are_skipped_witness:
  "\<not> recognized1 unknown_event \<and> \<not> recognized2 unknown_event \<and>
   search_streaming_loop print_delta [text_delta ''a'', unknown_event, turn_completed ''t1'']
     ([], None, []) = ([''a''], Some ''t1'', ''a'') \<and>
   stream_response_loop print_notice [text_delta ''a'', unknown_event, turn_completed ''t1'']
     ([], None, []) = ([''a''], Some ''t1'', ''a'')"
  using unrecognized_events_are_skipped
          [of print_delta "[text_delta ''a'', unknown_event, turn_completed ''t1'']"
              "([], None, [])" print_notice "([], None, [])"]
  by (simp add: recognized1_def recognized2_def unknown_event_def text_delta_def
        turn_completed_def print_delta_def py_print_def)

section \<open>The two paths of demo 2\<close>

text \<open>
  Where the two paths of demo 2 agree: when the last item of the response is a message
  whose first part is the text, and the stream delivers that text and a completed event
  with the response's id, both return the text and leave the same \<open>conversation_id\<close>.
\<close>

lemma sync_agrees_on_last_text:
  assumes "resp_output r = items @ [Message (OutputText t # parts)]"
    and "interruption st = None" and "concat (delta_texts (events st)) = t"
    and "completed_ids (events st) \<noteq> []" and "last (completed_ids (events st)) = resp_id r"
  shows "fst (sync_response self q tools m (Inr r)) = Inr t"
    and "fst (stream_response self q tools m (Inr st)) = Inr t"
    and "conversation_id (snd (sync_response self q tools m (Inr r))) = Some (resp_id r)"
    and "conversation_id (snd (stream_response self q tools m (Inr st))) = Some (resp_id r)"
  using assms
  by (simp_all add: sync_response_result stream_response_text stream_response_conversation_id
        response_text_def last_completed_def)

text \<open>
  Claim C5, at an input where the code breaks it. The claim: the non-streaming path gives
  what the streaming path gives on the synthetic stream of the response's full text and
  id. The response below has two messages around a tool call, as a turn with code
  execution gives. Its full text is \<open>a1a2\<close>, and \<open>_stream_response\<close> returns that, on the
  stream of the response as on the synthetic stream; \<open>_sync_response\<close> reads
  \<open>output[-1].content[0].text\<close> and returns \<open>a2\<close>, the last message alone. Both leave the
  same \<open>conversation_id\<close>.
\<close>

theorem sync_returns_last_message_only:
  "response_full_text two_message_response = ''a1a2'' \<and>
   concat (delta_texts (events two_message_stream)) = ''a1a2'' \<and>
   fst (sync_response init_advisor ''q'' [CodeInterpreter] ''gpt-4o'' (Inr two_message_response))
     = Inr ''a2'' \<and>
   fst (stream_response init_advisor ''q'' [CodeInterpreter] ''gpt-4o'' (Inr two_message_stream))
     = Inr ''a1a2'' \<and>
   fst (stream_response init_advisor ''q'' [CodeInterpreter] ''gpt-4o''
          (Inr (synthetic_stream (response_full_text two_message_response)
                  (resp_id two_message_response))))
     = Inr ''a1a2'' \<and>
   conversation_id
     (snd (sync_response init_advisor ''q'' [CodeInterpreter] ''gpt-4o''
             (Inr two_message_response))) = Some ''resp_1'' \<and>
   conversation_id
     (snd (stream_response init_advisor ''q'' [CodeInterpreter] ''gpt-4o''
             (Inr two_message_stream))) = Some ''resp_1''"
proof -
  have a: "response_full_text two_message_response = ''a1a2''" by code_simp
  have b: "concat (delta_texts (events two_message_stream)) = ''a1a2''" by code_simp
  have c: "fst (sync_response init_advisor ''q'' [CodeInterpreter] ''gpt-4o''
                  (Inr two_message_response)) = Inr ''a2''"
    by code_simp
  have d: "fst (stream_response init_advisor ''q'' [CodeInterpreter] ''gpt-4o''
                  (Inr two_message_stream)) = Inr ''a1a2''"
    by code_simp
  have e: "fst (stream_response init_advisor ''q'' [CodeInterpreter] ''gpt-4o''
          (Inr (synthetic_stream (response_full_text two_message_response)
                  (resp_id two_message_response))))
     = Inr ''a1a2''"
    by code_simp
  have f: "conversation_id
     (snd (sync_response init_advisor ''q'' [CodeInterpreter] ''gpt-4o''
             (Inr two_message_response))) = Some ''resp_1''"
    by code_simp
  have g: "conversation_id
     (snd (stream_response init_advisor ''q'' [CodeInterpreter] ''gpt-4o''
             (Inr two_message_stream))) = Some ''resp_1''"
    by code_simp
  show ?thesis
    by (intro conjI) (fact a, fact b, fact c, fact d, fact e, fact f, fact g)
qed

section \<open>The observer\<close>



lemma search_streaming_loop_raising_always:
  "search_streaming_loop_raising always_prints evs (ft, rid, out) =
     (search_streaming_loop print_delta evs (ft, rid, out), None)"
  by (induction evs arbitrary: ft rid out)
     (simp_all add: always_prints_def print_delta_def py_print_def)

lemma stream_response_loop_raising_always:
  "stream_response_loop_raising (print_notice_with always_prints) evs (ft, rid, out) =
     (stream_response_loop print_notice evs (ft, rid, out), None)"
  by (induction evs arbitrary: ft rid out)
     (simp_all add: always_prints_def py_print_def)

text \<open>
  On a standard output that accepts every write, the method with the printer is the
  method as modelled in the section on demo 1.
\<close>

lemma search_streaming_printing_always:
  "search_streaming_printing always_prints self q m answer = search_streaming self q m answer"
proof (cases "truthy (vector_store_id self)")
  case None
  then show ?thesis by (simp add: search_streaming_printing_def search_streaming_def)
next
  case (Some vs)
  show ?thesis
  proof (cases answer)
    case (Inl e)
    with Some show ?thesis
      by (simp add: search_streaming_printing_def search_streaming_def Let_def
            always_prints_def py_print_def)
  next
    case (Inr st)
    obtain ft rid out where
      l: "search_streaming_loop print_delta (events st)
            ([], None, stdout self @ nl # ''Searching: '' @ q @ nl # rule60 @ nl # ''Response: '')
          = (ft, rid, out)"
      by (cases "search_streaming_loop print_delta (events st)
            ([], None, stdout self @ nl # ''Searching: '' @ q @ nl # rule60 @ nl # ''Response: '')")
         auto
    with Some Inr show ?thesis
      by (cases "interruption st")
         (simp_all add: search_streaming_printing_def search_streaming_def Let_def
            always_prints_def [abs_def] py_print_def search_streaming_loop_raising_always
            [unfolded always_prints_def [abs_def]])
  qed
qed






section \<open>The guard on the vector store\<close>

text \<open>
  Claim C9. While no vector store has been created, which is the state every assistant
  starts in, \<open>upload_pdf\<close>, \<open>search\<close> and \<open>search_streaming\<close> raise ValueError and leave
  the whole state as it was: nothing is printed, no remote call is logged, and the history
  is unchanged.
\<close>

theorem no_vector_store_raises:
  "vector_store_id self = None \<Longrightarrow>
     upload_pdf self p ans = (Inl vector_store_error, self) \<and>
     search self q m a = (Inl vector_store_error, self) \<and>
     search_streaming self q m sa = (Inl vector_store_error, self) \<and>
     exc_class_of vector_store_error = ValueError"
  by (simp add: upload_pdf_def search_def search_streaming_def vector_store_error_def)

theorem no_vector_store_raises_witness:
  "vector_store_id init_assistant = None \<and>
   upload_pdf init_assistant ''docs/a.pdf''
     \<lparr>open_raises = None, files_create = Inr ''file_1'', vector_stores_files_create = None\<rparr>
     = (Inl vector_store_error, init_assistant) \<and>
   search init_assistant ''q'' ''gpt-4o-mini'' (Inr example_response)
     = (Inl vector_store_error, init_assistant) \<and>
   search_streaming init_assistant ''q'' ''gpt-4o-mini'' (Inr example_stream)
     = (Inl vector_store_error, init_assistant) \<and>
   calls init_assistant = [] \<and> conversation_history init_assistant = []"
  using no_vector_store_raises
          [of init_assistant "''docs/a.pdf''"
              "\<lparr>open_raises = None, files_create = Inr ''file_1'',
                vector_stores_files_create = None\<rparr>"
              "''q''" "''gpt-4o-mini''" "Inr example_response" "Inr example_stream"]
  by (simp add: init_assistant_def)

section \<open>The local tool handlers\<close>




section \<open>The tool loop of the spec\<close>

lemma tool_loop_bound:
  "depth \<le> max_depth \<Longrightarrow>
     snd (tool_loop registry service max_depth depth fed) \<le> max_depth"
proof (induction registry service max_depth depth fed rule: tool_loop.induct)
  case (1 registry service max_depth depth fed)
  show ?case
    apply (subst tool_loop.simps)
    using 1 by (auto split: round_outcome.splits sum.splits run_error.splits)
qed

lemma invokeLocal_not_exceeded: "invokeLocal registry name a \<noteq> Inl ToolLoopExceededError"
  by (simp add: invokeLocal_def split: option.splits spec_tool.splits sum.splits)

lemma fed_at_None_le:
  "fed_at registry service n = None \<Longrightarrow> n \<le> m \<Longrightarrow> fed_at registry service m = None"
  by (induction m) (auto simp: le_Suc_eq)

lemma requests_beyond_ended:
  "fed_at registry service (Suc d) = None \<Longrightarrow> d < max_depth \<Longrightarrow>
     \<not> requests_beyond registry service max_depth"
  using fed_at_None_le [of registry service "Suc d" max_depth]
  by (simp add: requests_beyond_def)

lemma tool_loop_from_trace:
  "fed_at registry service depth = Some fed \<Longrightarrow> depth \<le> max_depth \<Longrightarrow>
     (fst (tool_loop registry service max_depth depth fed) = Inl ToolLoopExceededError)
       = requests_beyond registry service max_depth \<and>
     (requests_beyond registry service max_depth \<longrightarrow>
        snd (tool_loop registry service max_depth depth fed) = max_depth)"
proof (induction registry service max_depth depth fed rule: tool_loop.induct)
  case (1 registry service max_depth depth fed)
  note at = "1.prems"(1) and le = "1.prems"(2)
  show ?case
  proof (cases "service fed")
    case (Final r)
    have "\<not> requests_beyond registry service max_depth"
    proof (cases "depth = max_depth")
      case True
      with at Final show ?thesis by (simp add: requests_beyond_def)
    next
      case False
      with le have lt: "depth < max_depth" by simp
      from at Final have "fed_at registry service (Suc depth) = None" by simp
      from requests_beyond_ended [OF this lt] show ?thesis .
    qed
    with Final show ?thesis by (subst tool_loop.simps, subst (2) tool_loop.simps) simp
  next
    case (Paused call_id name a)
    show ?thesis
    proof (cases "max_depth \<le> depth")
      case True
      with le have eq: "depth = max_depth" by simp
      with at Paused have "requests_beyond registry service max_depth"
        by (simp add: requests_beyond_def)
      with Paused True eq show ?thesis
        by (subst tool_loop.simps, subst (2) tool_loop.simps) simp
    next
      case False
      then have lt: "depth < max_depth" and le': "Suc depth \<le> max_depth" by simp_all
      show ?thesis
      proof (cases "invokeLocal registry name a")
        case (Inr out)
        with at Paused have at': "fed_at registry service (Suc depth) = Some (fed @ [(call_id, out)])"
          by simp
        from "1.IH"(2) [OF Paused False Inr at' le'] Paused False Inr show ?thesis
          by (subst tool_loop.simps, subst (2) tool_loop.simps) simp
      next
        case (Inl err)
        show ?thesis
        proof (cases err)
          case (ToolExecutionError n cause)
          with Inl at Paused have
            at': "fed_at registry service (Suc depth) = Some (fed @ [(call_id, str_exc cause)])"
            by simp
          from Inl ToolExecutionError
          have inv: "invokeLocal registry name a = Inl (ToolExecutionError n cause)" by simp
          from "1.IH"(1) [OF Paused False inv refl at' le'] Paused False inv show ?thesis
            by (subst tool_loop.simps, subst (2) tool_loop.simps) simp
        next
          case ToolLoopExceededError
          with Inl invokeLocal_not_exceeded show ?thesis by blast
        next
          case (UnknownToolError n)
          with Inl at Paused have "fed_at registry service (Suc depth) = None" by simp
          from requests_beyond_ended [OF this lt] Paused False Inl UnknownToolError
          show ?thesis by (subst tool_loop.simps, subst (2) tool_loop.simps) simp
        next
          case (NotLocalError n)
          with Inl at Paused have "fed_at registry service (Suc depth) = None" by simp
          from requests_beyond_ended [OF this lt] Paused False Inl NotLocalError
          show ?thesis by (subst tool_loop.simps, subst (2) tool_loop.simps) simp
        qed
      qed
    qed
  qed
qed

text \<open>
  Claim C6, on the loop modelled from the spec. \<open>tool_loop\<close> is a total function: its
  recursion was shown to terminate on the distance of the depth from the maximum, for
  every service, every registry and every handler. A run performs at most \<open>max_depth\<close>
  tool rounds. It fails with ToolLoopExceededError exactly when the service requests local
  tool execution beyond the bound, that is, when after \<open>max_depth\<close> rounds its next
  answer is a pause again; exactly \<open>max_depth\<close> rounds were performed then.
\<close>

theorem tool_loop_within_max_depth:
  "snd (run registry service max_depth) \<le> max_depth \<and>
   (requests_beyond registry service max_depth \<longrightarrow>
      run registry service max_depth = (Inl ToolLoopExceededError, max_depth)) \<and>
   (fst (run registry service max_depth) = Inl ToolLoopExceededError \<longrightarrow>
      requests_beyond registry service max_depth)"
proof -
  have at: "fed_at registry service 0 = Some []" by simp
  from tool_loop_from_trace [OF at, of max_depth] tool_loop_bound [of 0 max_depth registry service "[]"]
  show ?thesis
    by (auto simp: run_def prod_eq_iff)
qed

theorem tool_loop_within_max_depth_witness:
  "requests_beyond example_registry six_round_service 5 \<and>
   run example_registry six_round_service 5 = (Inl ToolLoopExceededError, 5) \<and>
   fst (run example_registry insistent_service 3) = Inl ToolLoopExceededError \<and>
   requests_beyond example_registry insistent_service 3 \<and>
   snd (run example_registry six_round_service 6) \<le> 6"
proof -
  have h: "requests_beyond example_registry six_round_service 5" by code_simp
  have k: "fst (run example_registry insistent_service 3) = Inl ToolLoopExceededError"
    by code_simp
  from tool_loop_within_max_depth [of example_registry six_round_service 5] h
  have a: "run example_registry six_round_service 5 = (Inl ToolLoopExceededError, 5)"
    by simp
  from tool_loop_within_max_depth [of example_registry insistent_service 3] k
  have b: "requests_beyond example_registry insistent_service 3"
    by simp
  from tool_loop_within_max_depth [of example_registry six_round_service 6]
  have c: "snd (run example_registry six_round_service 6) \<le> 6"
    by simp
  show ?thesis
    by (intro conjI) (fact h, fact a, fact k, fact b, fact c)
qed

end
